theory Spec2Isabelle
  imports Main "HOL-Library.Char_ord" "HOL-Library.List_Lexorder"
begin

section \<open>The Sass plugin of cobalt-ui (packages/plugin-sass/src/index.ts)\<close>

text \<open>
  The plugin turns a flat sequence of parsed design tokens into the text of one Sass file.
  Strings are character lists. A JavaScript object is the list of its own entries
  \<open>(key, value)\<close> in the order \<open>Object.keys\<close> enumerates them; reading \<open>obj[key]\<close>
  finds an own entry with \<open>map_of\<close> and otherwise a property inherited from
  \<open>Object.prototype\<close>, the prototype of the objects a token document is parsed into.
  A thrown exception is the left summand of the result.
\<close>

subsection \<open>Errors and JavaScript helpers\<close>

datatype error = Error string | TypeError string

text \<open>\<open>Array.prototype.join\<close> on an array of strings.\<close>

fun join :: "string \<Rightarrow> string list \<Rightarrow> string" where
  "join sep [] = []"
| "join sep [x] = x"
| "join sep (x # y # ys) = x @ sep @ join sep (y # ys)"

text \<open>A string is truthy when it is not empty.\<close>

definition truthy :: "string \<Rightarrow> bool" where
  "truthy s = (s \<noteq> [])"

definition dq :: string where
  "dq = [CHR 0x22]"

definition sq :: string where
  "sq = [CHR 0x27]"

definition backslash :: string where
  "backslash = [CHR 0x5C]"

definition backtick :: string where
  "backtick = [CHR 0x60]"

definition newline :: string where
  "newline = [CHR 0x0A]"

subsection \<open>Functions the plugin imports or takes from the runtime\<close>

text \<open>
  \<open>Indenter\<close> comes from the package \<open>@cobalt-ui/utils\<close>, \<open>encode\<close> and
  \<open>formatFontNames\<close> from \<open>./util.js\<close>; none of them is among the sources, so they are
  parameters. JavaScript numbers are floating point: their type \<open>'n\<close>, their conversion to
  a string and the product with 100 are parameters as well, and so are the functions of
  the runtime that follow the locale or Unicode: \<open>String.prototype.localeCompare\<close> and
  \<open>String.prototype.toLowerCase\<close>. \<open>inherited_to_string\<close> is the string the runtime
  makes of the property of \<open>Object.prototype\<close> with a given name (the source text of a
  native function), and \<open>formatFontNames_inherited\<close> is what \<open>formatFontNames\<close> does
  with such a property. Values of token types the plugin has no case for are of the type
  \<open>'x\<close>, with their truthiness.
\<close>

record ('n, 'x) deps =
  indent :: "string \<Rightarrow> nat \<Rightarrow> string"
  encode :: "string \<Rightarrow> string \<Rightarrow> string"
  formatFontNames :: "string list \<Rightarrow> string"
  num_to_string :: "'n \<Rightarrow> string"
  times100 :: "'n \<Rightarrow> 'n"
  localeCompare :: "string \<Rightarrow> string \<Rightarrow> int"
  toLowerCase :: "string \<Rightarrow> string"
  inherited_to_string :: "string \<Rightarrow> string"
  formatFontNames_inherited :: "string \<Rightarrow> error + string"
  truthy_other :: "'x \<Rightarrow> bool"

subsection \<open>Tokens\<close>

text \<open>
  The value shapes of \<open>@cobalt-ui/core\<close>, as index.ts uses them. A token of some type
  carries its \<open>$value\<close> and, when \<open>$extensions.mode\<close> is there, one value of the same shape
  for each mode.
\<close>

record ShadowValue =
  offsetX :: string
  offsetY :: string
  blur :: string
  spread :: string
  color :: string

record 'n GradientStop =
  stop_color :: string
  position :: 'n

record 'n TransitionValue =
  duration :: string
  delay :: string
  timingFunction :: "'n list option"

datatype 'n TypographyProperty = PString string | PArray "string list" | PNumber 'n

type_synonym 'n TypographyValue = "(string \<times> 'n TypographyProperty) list"

record 'v valued =
  dvalue :: 'v
  ext_mode :: "(string \<times> 'v) list option"

datatype ('n, 'x) token_data =
    ColorToken "string valued"
  | DimensionToken "string valued"
  | DurationToken "string valued"
  | FontToken "string list valued"
  | CubicBezierToken "'n list valued"
  | LinkToken "string valued"
  | ShadowToken "ShadowValue valued"
  | GradientToken "'n GradientStop list valued"
  | TransitionToken "'n TransitionValue valued"
  | TypographyToken "'n TypographyValue valued"
  | OtherToken string "'x valued"

record ('n, 'x) ParsedToken =
  token_id :: string
  tdata :: "('n, 'x) token_data"

text \<open>\<open>token.$type\<close>; the name an \<open>OtherToken\<close> carries is none of the ten above.\<close>

fun type_of_data :: "('n, 'x) token_data \<Rightarrow> string" where
  "type_of_data (ColorToken _) = ''color''"
| "type_of_data (DimensionToken _) = ''dimension''"
| "type_of_data (DurationToken _) = ''duration''"
| "type_of_data (FontToken _) = ''font''"
| "type_of_data (CubicBezierToken _) = ''cubicBezier''"
| "type_of_data (LinkToken _) = ''link''"
| "type_of_data (ShadowToken _) = ''shadow''"
| "type_of_data (GradientToken _) = ''gradient''"
| "type_of_data (TransitionToken _) = ''transition''"
| "type_of_data (TypographyToken _) = ''typography''"
| "type_of_data (OtherToken ty _) = ty"

definition token_type :: "('n, 'x) ParsedToken \<Rightarrow> string" where
  "token_type t = type_of_data (tdata t)"

text \<open>\<open>Object.keys((token.$extensions && token.$extensions.mode) || {})\<close>\<close>

definition keys_of :: "'v valued \<Rightarrow> string list" where
  "keys_of p = (case ext_mode p of None \<Rightarrow> [] | Some ms \<Rightarrow> map fst ms)"

fun mode_keys_data :: "('n, 'x) token_data \<Rightarrow> string list" where
  "mode_keys_data (ColorToken p) = keys_of p"
| "mode_keys_data (DimensionToken p) = keys_of p"
| "mode_keys_data (DurationToken p) = keys_of p"
| "mode_keys_data (FontToken p) = keys_of p"
| "mode_keys_data (CubicBezierToken p) = keys_of p"
| "mode_keys_data (LinkToken p) = keys_of p"
| "mode_keys_data (ShadowToken p) = keys_of p"
| "mode_keys_data (GradientToken p) = keys_of p"
| "mode_keys_data (TransitionToken p) = keys_of p"
| "mode_keys_data (TypographyToken p) = keys_of p"
| "mode_keys_data (OtherToken ty p) = keys_of p"

definition mode_keys :: "('n, 'x) ParsedToken \<Rightarrow> string list" where
  "mode_keys t = mode_keys_data (tdata t)"

subsection \<open>The transformers\<close>

definition transformColor :: "string \<Rightarrow> string" where
  "transformColor v = v"

definition transformDimension :: "string \<Rightarrow> string" where
  "transformDimension v = v"

definition transformDuration :: "string \<Rightarrow> string" where
  "transformDuration v = v"

definition transformFont :: "('n, 'x) deps \<Rightarrow> string list \<Rightarrow> string" where
  "transformFont d v = formatFontNames d v"

definition transformCubicBezier :: "('n, 'x) deps \<Rightarrow> 'n list \<Rightarrow> string" where
  "transformCubicBezier d v = ''cubic-bezier('' @ join '', '' (map (num_to_string d) v) @ '')''"

definition transformLink :: "string \<Rightarrow> string" where
  "transformLink v = ''url('' @ sq @ v @ sq @ '')''"

definition transformShadow :: "ShadowValue \<Rightarrow> string" where
  "transformShadow v = join '' '' [offsetX v, offsetY v, blur v, spread v, color v]"

definition transformGradient :: "('n, 'x) deps \<Rightarrow> 'n GradientStop list \<Rightarrow> string" where
  "transformGradient d v =
     join '', '' (map (\<lambda>g. stop_color g @ '' '' @ num_to_string d (times100 d (position g)) @ ''%'') v)"

text \<open>\<open>undefined\<close> in the array that is filtered is \<open>None\<close>.\<close>

definition transformTransition :: "('n, 'x) deps \<Rightarrow> 'n TransitionValue \<Rightarrow> string" where
  "transformTransition d v =
     (let tf = (case timingFunction v of
                  Some t \<Rightarrow> Some (''cubic-bezier('' @ join '','' (map (num_to_string d) t) @ '')'')
                | None \<Rightarrow> None)
      in join '' '' (map the (filter (\<lambda>x. x \<noteq> None) [Some (duration v), Some (delay v), tf])))"

subsection \<open>defaultTransformer\<close>

definition missing_mode :: "string \<Rightarrow> string \<Rightarrow> error" where
  "missing_mode tid m = Error (''Token '' @ tid @ '' missing '' @ dq @ ''$extensions.mode.'' @ m @ dq)"

definition no_transformer :: "string \<Rightarrow> error" where
  "no_transformer ty = Error (''No transformer defined for $type: '' @ ty @ '' tokens'')"

text \<open>
  The names of the properties every ordinary object inherits from \<open>Object.prototype\<close>.
  Each of them is a function, but \<open>__proto__\<close>, which reads as the prototype object
  itself; all of them are truthy.
\<close>

definition object_prototype_names :: "string list" where
  "object_prototype_names =
     [''constructor'', ''__defineGetter__'', ''__defineSetter__'', ''hasOwnProperty'',
      ''__lookupGetter__'', ''__lookupSetter__'', ''isPrototypeOf'', ''propertyIsEnumerable'',
      ''toString'', ''valueOf'', ''__proto__'', ''toLocaleString'']"

text \<open>
  What \<open>token.$extensions.mode[mode]\<close> reads: the value of an own entry, an inherited
  property, or \<open>undefined\<close> (\<open>None\<close>).
\<close>

datatype 'v property = Value 'v | Inherited string

definition get_property :: "(string \<times> 'v) list \<Rightarrow> string \<Rightarrow> 'v property option" where
  "get_property ms m =
     (case map_of ms m of
        Some v \<Rightarrow> Some (Value v)
      | None \<Rightarrow> if m \<in> set object_prototype_names then Some (Inherited m) else None)"

text \<open>
  The guard of the first line,
  \<open>mode && (!token.$extensions?.mode || !token.$extensions.mode[mode])\<close>:
  \<open>tr\<close> is the truthiness of a value of the token's shape.
\<close>

definition mode_guard :: "('v \<Rightarrow> bool) \<Rightarrow> 'v valued \<Rightarrow> string option \<Rightarrow> bool" where
  "mode_guard tr p mode =
     (case mode of
        None \<Rightarrow> False
      | Some m \<Rightarrow> truthy m \<and>
          (case ext_mode p of
             None \<Rightarrow> True
           | Some ms \<Rightarrow>
               (case get_property ms m of
                  None \<Rightarrow> True
                | Some (Value v) \<Rightarrow> \<not> tr v
                | Some (Inherited k) \<Rightarrow> False)))"

fun guard_data :: "('n, 'x) deps \<Rightarrow> ('n, 'x) token_data \<Rightarrow> string option \<Rightarrow> bool" where
  "guard_data d (ColorToken p) mode = mode_guard truthy p mode"
| "guard_data d (DimensionToken p) mode = mode_guard truthy p mode"
| "guard_data d (DurationToken p) mode = mode_guard truthy p mode"
| "guard_data d (FontToken p) mode = mode_guard (\<lambda>_. True) p mode"
| "guard_data d (CubicBezierToken p) mode = mode_guard (\<lambda>_. True) p mode"
| "guard_data d (LinkToken p) mode = mode_guard truthy p mode"
| "guard_data d (ShadowToken p) mode = mode_guard (\<lambda>_. True) p mode"
| "guard_data d (GradientToken p) mode = mode_guard (\<lambda>_. True) p mode"
| "guard_data d (TransitionToken p) mode = mode_guard (\<lambda>_. True) p mode"
| "guard_data d (TypographyToken p) mode = mode_guard (\<lambda>_. True) p mode"
| "guard_data d (OtherToken ty p) mode = mode_guard (truthy_other d) p mode"

text \<open>
  \<open>mode ? token.$extensions.mode[mode] : token.$value\<close>, evaluated after the guard has
  let the call pass. The read cannot give \<open>undefined\<close> there; the model returns
  \<open>$value\<close> for that.
\<close>

definition select_value :: "'v valued \<Rightarrow> string option \<Rightarrow> 'v property" where
  "select_value p mode =
     (case mode of
        None \<Rightarrow> Value (dvalue p)
      | Some m \<Rightarrow>
          if truthy m
          then (case ext_mode p of
                  None \<Rightarrow> Value (dvalue p)
                | Some ms \<Rightarrow>
                    (case get_property ms m of None \<Rightarrow> Value (dvalue p) | Some x \<Rightarrow> x))
          else Value (dvalue p))"

text \<open>
  A transformer applied to what was selected. On a value of the token's shape it is the
  function above. An inherited property has none of the fields and methods the
  transformers read: \<open>String(value)\<close> and the template of \<open>transformLink\<close> give its
  string, \<open>value.join\<close> and \<open>value.map\<close> are not functions, the five fields of a shadow
  are \<open>undefined\<close> and are joined as empty strings, and the three parts of a transition
  are \<open>undefined\<close> and filtered away.
\<close>

definition apply_transformer ::
  "('v \<Rightarrow> string) \<Rightarrow> (string \<Rightarrow> error + string) \<Rightarrow> 'v property \<Rightarrow> error + string" where
  "apply_transformer f g x = (case x of Value v \<Rightarrow> Inr (f v) | Inherited k \<Rightarrow> g k)"

fun dispatch :: "('n, 'x) deps \<Rightarrow> ('n, 'x) token_data \<Rightarrow> string option \<Rightarrow> error + string" where
  "dispatch d (ColorToken p) mode =
     apply_transformer transformColor (\<lambda>k. Inr (inherited_to_string d k)) (select_value p mode)"
| "dispatch d (DimensionToken p) mode =
     apply_transformer transformDimension (\<lambda>k. Inr (inherited_to_string d k)) (select_value p mode)"
| "dispatch d (DurationToken p) mode =
     apply_transformer transformDuration (\<lambda>k. Inr (inherited_to_string d k)) (select_value p mode)"
| "dispatch d (FontToken p) mode =
     apply_transformer (transformFont d) (formatFontNames_inherited d) (select_value p mode)"
| "dispatch d (CubicBezierToken p) mode =
     apply_transformer (transformCubicBezier d)
       (\<lambda>k. Inl (TypeError ''value.join is not a function'')) (select_value p mode)"
| "dispatch d (LinkToken p) mode =
     apply_transformer transformLink
       (\<lambda>k. Inr (''url('' @ sq @ inherited_to_string d k @ sq @ '')'')) (select_value p mode)"
| "dispatch d (ShadowToken p) mode =
     apply_transformer transformShadow
       (\<lambda>k. Inr (join '' '' [[], [], [], [], []])) (select_value p mode)"
| "dispatch d (GradientToken p) mode =
     apply_transformer (transformGradient d)
       (\<lambda>k. Inl (TypeError ''value.map is not a function'')) (select_value p mode)"
| "dispatch d (TransitionToken p) mode =
     apply_transformer (transformTransition d) (\<lambda>k. Inr (join '' '' [])) (select_value p mode)"
| "dispatch d (TypographyToken p) mode = Inl (no_transformer ''typography'')"
| "dispatch d (OtherToken ty p) mode = Inl (no_transformer ty)"

definition defaultTransformer ::
  "('n, 'x) deps \<Rightarrow> ('n, 'x) ParsedToken \<Rightarrow> string option \<Rightarrow> error + string" where
  "defaultTransformer d t mode =
     (if guard_data d (tdata t) mode
      then Inl (missing_mode (token_id t) (case mode of Some m \<Rightarrow> m | None \<Rightarrow> []))
      else dispatch d (tdata t) mode)"

subsection \<open>Options and the constants computed when the plugin is created\<close>

record ('n, 'x) Options =
  filename :: "string option"
  indentedSyntax :: "bool option"
  embedFiles :: "bool option"
  transform :: "(('n, 'x) ParsedToken \<Rightarrow> string option \<Rightarrow> string) option"

text \<open>The truthiness of \<open>options?.indentedSyntax\<close> and of \<open>options?.embedFiles\<close>.\<close>

definition opt_indentedSyntax :: "('n, 'x) Options option \<Rightarrow> bool" where
  "opt_indentedSyntax options =
     (case options of None \<Rightarrow> False | Some opts \<Rightarrow> indentedSyntax opts = Some True)"

definition opt_embedFiles :: "('n, 'x) Options option \<Rightarrow> bool" where
  "opt_embedFiles options =
     (case options of None \<Rightarrow> False | Some opts \<Rightarrow> embedFiles opts = Some True)"

definition ext :: "('n, 'x) Options option \<Rightarrow> string" where
  "ext options = (if opt_indentedSyntax options then ''.sass'' else ''.scss'')"

text \<open>
  \<open>s.replace(/(\.(sass|scss))?$/, '')\<close>. The pattern is tried at each position from the
  left; it matches where the rest of the string is \<open>.sass\<close>, \<open>.scss\<close> or empty, and the
  match, which reaches the end, is removed.
\<close>

fun replace_ext :: "string \<Rightarrow> string" where
  "replace_ext [] = []"
| "replace_ext (c # cs) =
     (if c # cs = ''.sass'' \<or> c # cs = ''.scss'' then [] else c # replace_ext cs)"

definition output_filename :: "('n, 'x) Options option \<Rightarrow> string" where
  "output_filename options =
     (let replaced = (case options of
                        None \<Rightarrow> None
                      | Some opts \<Rightarrow> map_option replace_ext (filename opts))
      in (case replaced of
            None \<Rightarrow> ''index''
          | Some s \<Rightarrow> if truthy s then s else ''index'') @ ext options)"

definition semi :: "('n, 'x) Options option \<Rightarrow> string" where
  "semi options = (if opt_indentedSyntax options then [] else '';'')"

definition cbOpen :: "('n, 'x) Options option \<Rightarrow> string" where
  "cbOpen options = (if opt_indentedSyntax options then [] else '' {'')"

definition cbClose :: "('n, 'x) Options option \<Rightarrow> string" where
  "cbClose options = (if opt_indentedSyntax options then [] else ''} '')"

definition VAR_TOKENS :: string where
  "VAR_TOKENS = ''__token-values''"

definition VAR_TYPOGRAPHY :: string where
  "VAR_TYPOGRAPHY = ''__token-typography-mixins''"

definition VAR_ERROR :: string where
  "VAR_ERROR = ''__cobalt-error''"

definition DEPENDENCIES :: "string list" where
  "DEPENDENCIES = [''sass:list'', ''sass:map'']"

text \<open>
  White space and line terminators of the regular expressions, on the characters the
  templates are made of.
\<close>

definition is_ws :: "char \<Rightarrow> bool" where
  "is_ws c = (c \<in> set [CHR 0x20, CHR 0x09, CHR 0x0A, CHR 0x0B, CHR 0x0C, CHR 0x0D])"

definition is_line_terminator :: "char \<Rightarrow> bool" where
  "is_line_terminator c = (c = CHR 0x0A \<or> c = CHR 0x0D)"

definition trim :: "string \<Rightarrow> string" where
  "trim s = rev (dropWhile is_ws (rev (dropWhile is_ws s)))"

text \<open>
  \<open>s.replace(TRAILING_WS_RE, '')\<close> with \<open>/\s+$/gm\<close>. A match starts at a white space
  character and runs, through white space only, up to the last position that is the end
  of the string or stands before a line terminator. So a white space character is
  removed exactly when the white space after it reaches the end of the string or
  contains a line terminator.
\<close>

definition ws_reaches_eol :: "string \<Rightarrow> bool" where
  "ws_reaches_eol cs =
     (dropWhile is_ws cs = [] \<or> (\<exists>x \<in> set (takeWhile is_ws cs). is_line_terminator x))"

fun replace_trailing_ws :: "string \<Rightarrow> string" where
  "replace_trailing_ws [] = []"
| "replace_trailing_ws (c # cs) =
     (if is_ws c \<and> ws_reaches_eol cs then replace_trailing_ws cs
      else c # replace_trailing_ws cs)"

definition TOKEN_FN :: "('n, 'x) Options option \<Rightarrow> string" where
  "TOKEN_FN options =
     replace_trailing_ws (trim (join newline
       [''@function token($tokenName, $modeName: default)'' @ cbOpen options,
        ''  @if map.has-key($'' @ VAR_TOKENS @ '', $tokenName) == false'' @ cbOpen options,
        ''    @error '' @ dq @ ''No token named '' @ backslash @ dq @ ''#{$tokenName}''
           @ backslash @ dq @ dq @ semi options,
        ''  '' @ cbClose options,
        ''  $_token: map.get($'' @ VAR_TOKENS @ '', $tokenName)'' @ semi options,
        ''  @if map.has-key($_token, '' @ dq @ ''__cobalt-error'' @ dq @ '')'' @ cbOpen options,
        ''    @error map.get($_token, '' @ dq @ ''__cobalt-error'' @ dq @ '')'' @ semi options,
        ''  '' @ cbClose options,
        ''  @if map.has-key($_token, $modeName) {'',
        ''    @return map.get($_token, $modeName)'' @ semi options,
        ''  '' @ cbClose options @ ''@else'' @ cbOpen options,
        ''    @return map.get($_token, default)'' @ semi options,
        ''  '' @ cbClose options,
        cbClose options]))"

definition LIST_MODES_FN :: "('n, 'x) Options option \<Rightarrow> string" where
  "LIST_MODES_FN options =
     replace_trailing_ws (trim (join newline
       [''@function listModes($tokenName)'' @ cbOpen options,
        ''  @if map.has-key($'' @ VAR_TOKENS @ '', $tokenName) == false'' @ cbOpen options,
        ''    @error '' @ dq @ ''No token named '' @ backslash @ dq @ ''#{$tokenName}''
           @ backslash @ dq @ dq @ semi options,
        ''  '' @ cbClose options,
        ''  $_modes: ();'',
        ''  @each $k in map.get($'' @ VAR_TOKENS @ '', $tokenName)'' @ cbOpen options,
        ''    @if $k != '' @ dq @ ''default'' @ dq @ cbOpen options,
        ''      $_modes: list.append($_modes, $k);'',
        ''    '' @ cbClose options,
        ''  '' @ cbClose options,
        ''  @return $_modes;'',
        cbClose options]))"

definition TYPOGRAPHY_MIXIN :: "('n, 'x) Options option \<Rightarrow> string" where
  "TYPOGRAPHY_MIXIN options =
     replace_trailing_ws (trim (join newline
       [''@mixin typography($tokenName, $modeName: default)'' @ cbOpen options,
        ''  @if map.has-key($'' @ VAR_TYPOGRAPHY @ '', $tokenName) == false'' @ cbOpen options,
        ''    @error '' @ dq @ ''No typography mixin named '' @ backslash @ dq @ ''#{$tokenName}''
           @ backslash @ dq @ dq @ semi options,
        ''  '' @ cbClose options,
        ''  $_mixin: map.get($'' @ VAR_TYPOGRAPHY @ '', $tokenName)'' @ semi options,
        ''  $_properties: map.get($_mixin, default)'' @ semi options,
        ''  @if map.has-key($_mixin, $modeName)'' @ cbOpen options,
        ''    $_properties: map.get($_mixin, $modeName)'' @ semi options,
        ''  '' @ cbClose options,
        ''  @each $_property, $_value in $_properties'' @ cbOpen options,
        ''    #{$_property}: #{$_value}'' @ semi options,
        ''  '' @ cbClose options,
        cbClose options]))"

subsection \<open>The configuration the plugin captures\<close>

text \<open>
  Modelled from the spec: the declaration of \<open>ResolvedConfig\<close> is in \<open>@cobalt-ui/core\<close>
  and not among the sources; by the spec it holds the output directory, the list of
  token source files and the ordered plugin list. Configurations are shared objects: a
  heap maps a reference to the object it denotes, and the closure variable \<open>config\<close> of
  the plugin holds a reference, or nothing before the \<open>config\<close> hook has run.
\<close>

record ResolvedConfig =
  outDir :: string
  token_files :: "string list"
  plugins :: "string list"

type_synonym ref = nat

type_synonym heap = "ref \<Rightarrow> ResolvedConfig"

record plugin_state =
  config :: "ref option"

subsection \<open>build: the map of token values\<close>

record BuildResult =
  result_filename :: string
  contents :: string

record metadata =
  name :: "string option"

record ('n, 'x) build_input =
  tokens :: "('n, 'x) ParsedToken list"
  metadata :: metadata

text \<open>The result of \<open>options.transform\<close> when \<open>options?.transform\<close> is a function.\<close>

definition override :: "('n, 'x) Options option \<Rightarrow> ('n, 'x) ParsedToken \<Rightarrow> string option \<Rightarrow> string option" where
  "override options t mode =
     (case options of
        None \<Rightarrow> None
      | Some opts \<Rightarrow> (case transform opts of None \<Rightarrow> None | Some f \<Rightarrow> Some (f t mode)))"

text \<open>
  \<open>(typeof options?.transform === 'function' && options.transform(token, mode))
  || defaultTransformer(token, mode)\<close>
\<close>

definition transformed ::
  "('n, 'x) deps \<Rightarrow> ('n, 'x) Options option \<Rightarrow> ('n, 'x) ParsedToken \<Rightarrow> string option \<Rightarrow> error + string" where
  "transformed d options t mode =
     (case override options t mode of
        None \<Rightarrow> defaultTransformer d t mode
      | Some s \<Rightarrow> if truthy s then Inr s else defaultTransformer d t mode)"

definition is_link :: "('n, 'x) ParsedToken \<Rightarrow> bool" where
  "is_link t = (case tdata t of LinkToken _ \<Rightarrow> True | _ \<Rightarrow> False)"

text \<open>
  \<open>if (token.$type === 'link' && options?.embedFiles) value = encode(value, config.outDir)\<close>;
  reading \<open>outDir\<close> of an unassigned \<open>config\<close> throws a TypeError.
\<close>

definition embed ::
  "('n, 'x) deps \<Rightarrow> ('n, 'x) Options option \<Rightarrow> ResolvedConfig option \<Rightarrow> ('n, 'x) ParsedToken \<Rightarrow> string \<Rightarrow> error + string" where
  "embed d options cfg t v =
     (if is_link t \<and> opt_embedFiles options
      then (case cfg of
              None \<Rightarrow> Inl (TypeError ''Cannot read properties of undefined (reading 'outDir')'')
            | Some c \<Rightarrow> Inr (encode d v (outDir c)))
      else Inr v)"

text \<open>The value of one entry: the transformed value, embedded when the token is a link.\<close>

definition emitted_value ::
  "('n, 'x) deps \<Rightarrow> ('n, 'x) Options option \<Rightarrow> ResolvedConfig option \<Rightarrow> ('n, 'x) ParsedToken \<Rightarrow>
   string option \<Rightarrow> error + string" where
  "emitted_value d options cfg t mode =
     (case transformed d options t mode of
        Inl e \<Rightarrow> Inl e
      | Inr v \<Rightarrow> embed d options cfg t v)"

text \<open>The lines pushed for a token, each through \<open>i.indent\<close>.\<close>

definition token_open :: "('n, 'x) deps \<Rightarrow> string \<Rightarrow> string" where
  "token_open d tid = indent d (dq @ tid @ dq @ '': ('') 1"

definition default_line :: "('n, 'x) deps \<Rightarrow> string \<Rightarrow> string" where
  "default_line d v = indent d (''default: ('' @ v @ ''),'') 2"

definition mode_line :: "('n, 'x) deps \<Rightarrow> string \<Rightarrow> string \<Rightarrow> string" where
  "mode_line d modeName v = indent d (dq @ modeName @ dq @ '': ('' @ v @ ''),'') 2"

definition close_line :: "('n, 'x) deps \<Rightarrow> nat \<Rightarrow> string" where
  "close_line d level = indent d ''),'' level"

definition typography_error_line :: "('n, 'x) deps \<Rightarrow> string \<Rightarrow> string" where
  "typography_error_line d tid =
     indent d (dq @ VAR_ERROR @ dq @ '': '' @ dq @ ''This is a typography mixin. Use '' @ backtick
       @ ''@include typography('' @ backslash @ dq @ tid @ backslash @ dq @ '')'' @ backtick
       @ '' instead.'' @ dq @ '','') 2"

text \<open>The loop over the mode names of one token; \<open>output\<close> is the array of lines.\<close>

fun modes_loop ::
  "('n, 'x) deps \<Rightarrow> ('n, 'x) Options option \<Rightarrow> ResolvedConfig option \<Rightarrow> ('n, 'x) ParsedToken \<Rightarrow>
   string list \<Rightarrow> string list \<Rightarrow> error + string list" where
  "modes_loop d options cfg t [] output = Inr output"
| "modes_loop d options cfg t (modeName # rest) output =
     (case emitted_value d options cfg t (Some modeName) of
        Inl e \<Rightarrow> Inl e
      | Inr modeValue \<Rightarrow>
          modes_loop d options cfg t rest (output @ [mode_line d modeName modeValue]))"

type_synonym 'n ParsedTypographyToken = "string \<times> 'n TypographyValue valued"

text \<open>
  One round of the loop over the tokens: the state is the array of lines and the array
  \<open>typographyTokens\<close>.
\<close>

definition token_step ::
  "('n, 'x) deps \<Rightarrow> ('n, 'x) Options option \<Rightarrow> ResolvedConfig option \<Rightarrow> ('n, 'x) ParsedToken \<Rightarrow>
   string list \<times> 'n ParsedTypographyToken list \<Rightarrow>
   error + string list \<times> 'n ParsedTypographyToken list" where
  "token_step d options cfg t st =
     (case st of (output, typographyTokens) \<Rightarrow>
        (case tdata t of
           TypographyToken p \<Rightarrow>
             Inr (output @
                    [token_open d (token_id t),
                     typography_error_line d (token_id t),
                     close_line d 1],
                  typographyTokens @ [(token_id t, p)])
         | _ \<Rightarrow>
             (case emitted_value d options cfg t None of
                Inl e \<Rightarrow> Inl e
              | Inr v \<Rightarrow>
                  (case modes_loop d options cfg t (mode_keys t)
                          (output @ [token_open d (token_id t), default_line d v]) of
                     Inl e \<Rightarrow> Inl e
                   | Inr output' \<Rightarrow> Inr (output' @ [close_line d 1], typographyTokens)))))"

fun tokens_loop ::
  "('n, 'x) deps \<Rightarrow> ('n, 'x) Options option \<Rightarrow> ResolvedConfig option \<Rightarrow> ('n, 'x) ParsedToken list \<Rightarrow>
   string list \<times> 'n ParsedTypographyToken list \<Rightarrow>
   error + string list \<times> 'n ParsedTypographyToken list" where
  "tokens_loop d options cfg [] st = Inr st"
| "tokens_loop d options cfg (t # ts) st =
     (case token_step d options cfg t st of
        Inl e \<Rightarrow> Inl e
      | Inr st' \<Rightarrow> tokens_loop d options cfg ts st')"

subsection \<open>build: the typography mixins\<close>

text \<open>
  \<open>Array.prototype.sort\<close> with a comparison function is stable; for a comparison function
  that is a consistent order it returns the result of inserting the elements one by one.
\<close>

fun insert_by :: "('a \<Rightarrow> 'a \<Rightarrow> int) \<Rightarrow> 'a \<Rightarrow> 'a list \<Rightarrow> 'a list" where
  "insert_by cmp x [] = [x]"
| "insert_by cmp x (y # ys) = (if cmp x y \<le> 0 then x # y # ys else y # insert_by cmp x ys)"

definition array_sort :: "('a \<Rightarrow> 'a \<Rightarrow> int) \<Rightarrow> 'a list \<Rightarrow> 'a list" where
  "array_sort cmp xs = foldr (insert_by cmp) xs []"

text \<open>The comparison function \<open>([a], [b]) => a.localeCompare(b)\<close> on entries.\<close>

definition compare_keys :: "('n, 'x) deps \<Rightarrow> string \<times> 'v \<Rightarrow> string \<times> 'v \<Rightarrow> int" where
  "compare_keys d e1 e2 = localeCompare d (fst e1) (fst e2)"

definition is_upper :: "char \<Rightarrow> bool" where
  "is_upper c = (65 \<le> (of_char c :: nat) \<and> (of_char c :: nat) \<le> 90)"

text \<open>
  \<open>k.replace(CAMELCASE_RE, '$1-$2')\<close> with \<open>/([^A-Z])([A-Z])/g\<close>: the search goes on
  after the two characters of a match.
\<close>

fun replace_camelcase :: "string \<Rightarrow> string" where
  "replace_camelcase (a # b # cs) =
     (if \<not> is_upper a \<and> is_upper b then a # CHR ''-'' # b # replace_camelcase cs
      else a # replace_camelcase (b # cs))"
| "replace_camelcase cs = cs"

text \<open>\<open>k.replace(CAMELCASE_RE, '$1-$2').toLowerCase()\<close>\<close>

definition property_name :: "('n, 'x) deps \<Rightarrow> string \<Rightarrow> string" where
  "property_name d k = toLowerCase d (replace_camelcase k)"

text \<open>\<open>Array.isArray(value) ? formatFontNames(value) : value\<close> inside the template.\<close>

fun property_value :: "('n, 'x) deps \<Rightarrow> 'n TypographyProperty \<Rightarrow> string" where
  "property_value d (PArray names) = formatFontNames d names"
| "property_value d (PString s) = s"
| "property_value d (PNumber n) = num_to_string d n"

definition property_line :: "('n, 'x) deps \<Rightarrow> string \<times> 'n TypographyProperty \<Rightarrow> string" where
  "property_line d e =
     (case e of (k, v) \<Rightarrow>
        indent d (dq @ property_name d k @ dq @ '': ('' @ property_value d v @ ''),'') 3)"

text \<open>The loop over the sorted properties of one value.\<close>

fun properties_loop ::
  "('n, 'x) deps \<Rightarrow> (string \<times> 'n TypographyProperty) list \<Rightarrow> string list \<Rightarrow> string list" where
  "properties_loop d [] output = output"
| "properties_loop d (e # es) output = properties_loop d es (output @ [property_line d e])"

fun typography_modes_loop ::
  "('n, 'x) deps \<Rightarrow> (string \<times> 'n TypographyValue) list \<Rightarrow> string list \<Rightarrow> string list" where
  "typography_modes_loop d [] output = output"
| "typography_modes_loop d ((mode, modeValue) # rest) output =
     typography_modes_loop d rest
       (properties_loop d (array_sort (compare_keys d) modeValue)
          (output @ [indent d (dq @ mode @ dq @ '': ('') 2])
        @ [close_line d 2])"

definition entries_of :: "'v valued \<Rightarrow> (string \<times> 'v) list" where
  "entries_of p = (case ext_mode p of None \<Rightarrow> [] | Some ms \<Rightarrow> ms)"

fun typography_loop ::
  "('n, 'x) deps \<Rightarrow> 'n ParsedTypographyToken list \<Rightarrow> string list \<Rightarrow> string list" where
  "typography_loop d [] output = output"
| "typography_loop d ((tid, p) # rest) output =
     typography_loop d rest
       (typography_modes_loop d (entries_of p)
          (properties_loop d (array_sort (compare_keys d) (dvalue p))
             (output @ [token_open d tid, indent d ''default: ('' 2])
           @ [close_line d 2])
        @ [close_line d 1])"

subsection \<open>build and the hooks of the plugin\<close>

definition header :: "metadata \<Rightarrow> string list" where
  "header m =
     [''////'',
      ''/// '' @ (case name m of None \<Rightarrow> ''Design Tokens''
                 | Some n \<Rightarrow> if truthy n then n else ''Design Tokens''),
      ''/// Auto-generated from tokens.json.'',
      ''/// DO NOT EDIT!'',
      ''////'',
      '''']"

definition use_lines :: "('n, 'x) Options option \<Rightarrow> string list" where
  "use_lines options = map (\<lambda>n. ''@use '' @ dq @ n @ dq @ semi options) DEPENDENCIES"

definition utilities :: "('n, 'x) Options option \<Rightarrow> string list" where
  "utilities options =
     [TOKEN_FN options, '''', LIST_MODES_FN options, '''', TYPOGRAPHY_MIXIN options, '''']"

definition build_lines ::
  "('n, 'x) deps \<Rightarrow> ('n, 'x) Options option \<Rightarrow> ResolvedConfig option \<Rightarrow> ('n, 'x) build_input \<Rightarrow>
   error + string list" where
  "build_lines d options cfg inp =
     (case tokens_loop d options cfg (tokens inp)
             (header (metadata inp) @ use_lines options
                @ ['''', indent d (''$'' @ VAR_TOKENS @ '': ('') 0], []) of
        Inl e \<Rightarrow> Inl e
      | Inr (output, typographyTokens) \<Rightarrow>
          Inr (typography_loop d typographyTokens
                 (output @ ['')'' @ semi options, '''', ''$'' @ VAR_TYPOGRAPHY @ '': (''])
               @ ['')'' @ semi options, '''']
               @ utilities options))"

definition build ::
  "('n, 'x) deps \<Rightarrow> ('n, 'x) Options option \<Rightarrow> ResolvedConfig option \<Rightarrow> ('n, 'x) build_input \<Rightarrow>
   error + BuildResult list" where
  "build d options cfg inp =
     (case build_lines d options cfg inp of
        Inl e \<Rightarrow> Inl e
      | Inr output \<Rightarrow>
          Inr [\<lparr>result_filename = output_filename options, contents = join newline output\<rparr>])"

text \<open>
  The two hooks as steps on the closure state of the plugin and the heap of
  configuration objects. \<open>config(c)\<close> assigns the reference; \<open>build\<close> reads the object
  the captured reference denotes.
\<close>

definition config_hook :: "ref \<Rightarrow> plugin_state \<times> heap \<Rightarrow> plugin_state \<times> heap" where
  "config_hook c s = (case s of (st, h) \<Rightarrow> (st\<lparr>config := Some c\<rparr>, h))"

definition build_hook ::
  "('n, 'x) deps \<Rightarrow> ('n, 'x) Options option \<Rightarrow> ('n, 'x) build_input \<Rightarrow> plugin_state \<times> heap \<Rightarrow>
   (error + BuildResult list) \<times> plugin_state \<times> heap" where
  "build_hook d options inp s =
     (case s of (st, h) \<Rightarrow> (build d options (map_option h (config st)) inp, st, h))"

subsection \<open>Notions the properties are stated with\<close>

text \<open>The nine types \<open>defaultTransformer\<close> has a case for.\<close>

definition handled_types :: "string list" where
  "handled_types = [''color'', ''dimension'', ''duration'', ''font'', ''cubicBezier'', ''link'',
                    ''shadow'', ''gradient'', ''transition'']"

definition is_typography :: "('n, 'x) ParsedToken \<Rightarrow> bool" where
  "is_typography t = (case tdata t of TypographyToken _ \<Rightarrow> True | _ \<Rightarrow> False)"

text \<open>
  The results of a sequence of calls: the first exception, or else all the values.
\<close>

fun collect :: "('e + 'a) list \<Rightarrow> 'e + 'a list" where
  "collect [] = Inr []"
| "collect (x # xs) =
     (case x of
        Inl e \<Rightarrow> Inl e
      | Inr v \<Rightarrow> (case collect xs of Inl e \<Rightarrow> Inl e | Inr vs \<Rightarrow> Inr (v # vs)))"

text \<open>
  The mode lookup rule in the words of the specification with the fallback replaced:
  without a requested mode (no argument, or the empty name) the value is \<open>$value\<close>;
  with one, it is \<open>$extensions.mode[name]\<close> when the mapping has that mode and its
  value is truthy, and an error naming the token and the mode otherwise. It speaks of
  the entries of the mapping only; the code follows it for the names that are not names
  of inherited properties.
\<close>

definition mode_lookup_rule :: "('v \<Rightarrow> bool) \<Rightarrow> string \<Rightarrow> 'v valued \<Rightarrow> string option \<Rightarrow> error + 'v" where
  "mode_lookup_rule tr tid p mode =
     (case mode of
        None \<Rightarrow> Inr (dvalue p)
      | Some m \<Rightarrow>
          if m = [] then Inr (dvalue p)
          else (case map_of (entries_of p) m of
                  None \<Rightarrow> Inl (Error (''Token '' @ tid @ '' missing '' @ dq @ ''$extensions.mode.'' @ m @ dq))
                | Some v \<Rightarrow>
                    if tr v then Inr v
                    else Inl (Error (''Token '' @ tid @ '' missing '' @ dq @ ''$extensions.mode.'' @ m @ dq))))"




subsection \<open>Concrete parameters and inputs\<close>

text \<open>
  An instance of the parameters (two spaces of indentation for each level, numbers as
  integers, the lexicographic order of the character codes for the comparison, lower
  case for the letters A to Z, the text of a native function for an inherited property)
  and some tokens, for the closed instances of the theorems.
\<close>

definition ascii_lower :: "char \<Rightarrow> char" where
  "ascii_lower c = (if is_upper c then char_of ((of_char c :: nat) + 32) else c)"

definition sample_deps :: "(int, unit) deps" where
  "sample_deps =
     \<lparr>indent = (\<lambda>s level. replicate (2 * level) CHR '' '' @ s),
      encode = (\<lambda>v dir. ''data:'' @ dir @ v),
      formatFontNames = join '', '',
      num_to_string = (\<lambda>n. if n = 0 then ''0'' else ''1''),
      times100 = (\<lambda>n. n * 100),
      localeCompare = (\<lambda>a b. if a = b then 0 else if a < b then - 1 else 1),
      toLowerCase = map ascii_lower,
      inherited_to_string =
        (\<lambda>k. if k = ''__proto__'' then ''[object Object]''
             else ''function '' @ (if k = ''constructor'' then ''Object'' else k)
                  @ ''() { [native code] }''),
      formatFontNames_inherited = (\<lambda>k. Inl (TypeError ''fontNames.map is not a function'')),
      truthy_other = (\<lambda>_. True)\<rparr>"

definition sample_color :: "(int, unit) ParsedToken" where
  "sample_color =
     \<lparr>token_id = ''color.red'',
      tdata = ColorToken \<lparr>dvalue = ''#ff0000'',
                          ext_mode = Some [(''light'', ''#ff3333''), (''dark'', ''#cc0000'')]\<rparr>\<rparr>"

definition sample_plain :: "(int, unit) ParsedToken" where
  "sample_plain =
     \<lparr>token_id = ''color.blue'', tdata = ColorToken \<lparr>dvalue = ''#0000ff'', ext_mode = None\<rparr>\<rparr>"

definition sample_typography :: "(int, unit) ParsedToken" where
  "sample_typography =
     \<lparr>token_id = ''type.body'',
      tdata = TypographyToken
        \<lparr>dvalue = [(''lineHeight'', PNumber 1), (''fontFamily'', PArray [''Inter'', ''sans-serif'']),
                   (''fontSize'', PString ''16px'')],
         ext_mode = Some [(''mobile'', [(''fontSize'', PString ''14px''),
                                        (''fontFamily'', PArray [''Inter''])])]\<rparr>\<rparr>"

text \<open>
  Options with an override that answers \<open>X\<close> when called without a mode and the empty
  string when called with one, and an input of two tokens.
\<close>

definition sample_options :: "(int, unit) Options option" where
  "sample_options =
     Some \<lparr>filename = Some ''tokens.scss'', indentedSyntax = None, embedFiles = None,
           transform = Some (\<lambda>t mode. if mode = None then ''X'' else [])\<rparr>"

definition sample_input :: "(int, unit) build_input" where
  "sample_input =
     \<lparr>tokens = [sample_color, sample_typography], metadata = \<lparr>name = None\<rparr>\<rparr>"

text \<open>
  A token of a type without a transformer, a colour token whose mode value is the empty
  string, a link token, options for the indented syntax with embedded files, and a heap
  of configuration objects.
\<close>

definition sample_custom :: "(int, unit) ParsedToken" where
  "sample_custom =
     \<lparr>token_id = ''space.base'', tdata = OtherToken ''number'' \<lparr>dvalue = (), ext_mode = None\<rparr>\<rparr>"

definition sample_empty_mode :: "(int, unit) ParsedToken" where
  "sample_empty_mode =
     \<lparr>token_id = ''color.ink'',
      tdata = ColorToken \<lparr>dvalue = ''#000000'', ext_mode = Some [(''dark'', [])]\<rparr>\<rparr>"

definition sample_link :: "(int, unit) ParsedToken" where
  "sample_link =
     \<lparr>token_id = ''icon.add'', tdata = LinkToken \<lparr>dvalue = ''add.svg'', ext_mode = None\<rparr>\<rparr>"

definition sample_embed_options :: "(int, unit) Options option" where
  "sample_embed_options =
     Some \<lparr>filename = Some ''out/vars.sass'', indentedSyntax = Some True, embedFiles = Some True,
           transform = None\<rparr>"

definition sample_heap :: heap where
  "sample_heap =
     (\<lambda>r. \<lparr>outDir = (if r = 0 then ''file:///a/'' else ''file:///b/''),
            token_files = [''tokens.json''], plugins = [''@cobalt-ui/plugin-sass'']\<rparr>)"

definition sample_link_input :: "(int, unit) build_input" where
  "sample_link_input =
     \<lparr>tokens = [sample_link, sample_plain], metadata = \<lparr>name = Some ''Brand''\<rparr>\<rparr>"

section \<open>Properties\<close>

subsection \<open>defaultTransformer\<close>

lemma get_property_absent:
  "m \<notin> fst ` set ms \<Longrightarrow> m \<notin> set object_prototype_names \<Longrightarrow> get_property ms m = None"
proof -
  assume "m \<notin> fst ` set ms" and n: "m \<notin> set object_prototype_names"
  then have "map_of ms m = None" by (simp add: map_of_eq_None_iff)
  with n show ?thesis by (simp add: get_property_def)
qed

lemma mode_guard_absent:
  "m \<notin> set (keys_of p) \<Longrightarrow> m \<notin> set object_prototype_names \<Longrightarrow> truthy m \<Longrightarrow>
   mode_guard tr p (Some m)"
  by (cases "ext_mode p") (simp_all add: keys_of_def mode_guard_def get_property_absent)

lemma guard_data_absent:
  "m \<notin> set (mode_keys t) \<Longrightarrow> m \<notin> set object_prototype_names \<Longrightarrow> truthy m \<Longrightarrow>
   guard_data d (tdata t) (Some m)"
  by (cases "tdata t") (simp_all add: mode_keys_def mode_guard_absent)

lemma guard_data_None: "\<not> guard_data d td None"
  by (cases td) (simp_all add: mode_guard_def)

lemma dispatch_unhandled:
  "type_of_data td \<notin> set handled_types \<Longrightarrow>
   dispatch d td mode = Inl (no_transformer (type_of_data td))"
  by (cases td) (simp_all add: handled_types_def)

text \<open>
  \<open>defaultTransformer\<close> throws for every token whose \<open>$type\<close> is none of the nine handled
  ones, typography tokens among them. It throws the error that names the token id and
  the mode when the requested mode is neither a key of \<open>$extensions.mode\<close> nor the name
  of a property objects inherit.
\<close>

lemma defaultTransformer_throws_own:
  "(token_type t \<notin> set handled_types \<longrightarrow>
      (\<exists>e. defaultTransformer d t mode = Inl e) \<and>
      defaultTransformer d t None =
        Inl (Error (''No transformer defined for $type: '' @ token_type t @ '' tokens'')))
   \<and> (is_typography t \<longrightarrow> token_type t \<notin> set handled_types)
   \<and> (truthy m \<and> m \<notin> set (mode_keys t) \<and> m \<notin> set object_prototype_names \<longrightarrow>
        defaultTransformer d t (Some m) =
          Inl (Error (''Token '' @ token_id t @ '' missing '' @ dq @ ''$extensions.mode.'' @ m @ dq)))"
proof -
  have "is_typography t \<longrightarrow> token_type t \<notin> set handled_types"
    by (cases "tdata t") (simp_all add: is_typography_def token_type_def handled_types_def)
  then show ?thesis
    by (simp add: defaultTransformer_def token_type_def dispatch_unhandled guard_data_absent
        guard_data_None no_transformer_def missing_mode_def)
qed

text \<open>
  C9 at a failing input. The colour token has the modes \<open>light\<close> and \<open>dark\<close>; the mode
  \<open>toString\<close> is requested, which is not among them. The read
  \<open>token.$extensions.mode[mode]\<close> finds the function every object inherits, the guard
  of the first line passes, and \<open>transformColor\<close> returns the string of that function:
  no error is thrown.
\<close>

theorem inherited_mode_not_reported:
  "truthy ''toString''
   \<and> ''toString'' \<notin> set (mode_keys sample_color)
   \<and> defaultTransformer sample_deps sample_color (Some ''toString'') =
       Inr ''function toString() { [native code] }''
   \<and> defaultTransformer sample_deps sample_color (Some ''toString'') \<noteq>
       Inl (Error (''Token color.red missing '' @ dq @ ''$extensions.mode.toString'' @ dq))"
  by (simp add: truthy_def mode_keys_def keys_of_def sample_color_def defaultTransformer_def
      mode_guard_def get_property_def object_prototype_names_def select_value_def
      apply_transformer_def sample_deps_def)

lemma mode_rule_guard:
  assumes "\<forall>m. mode = Some m \<longrightarrow> m \<notin> set object_prototype_names"
  shows "mode_lookup_rule tr tid p mode =
     (if mode_guard tr p mode
      then Inl (missing_mode tid (case mode of Some m \<Rightarrow> m | None \<Rightarrow> []))
      else Inr (case select_value p mode of Value v \<Rightarrow> v | Inherited k \<Rightarrow> dvalue p))"
    and "\<not> mode_guard tr p mode \<longrightarrow> (\<exists>v. select_value p mode = Value v)"
  using assms
  by (auto simp: mode_lookup_rule_def mode_guard_def select_value_def entries_of_def truthy_def
      missing_mode_def get_property_def split: option.splits)

lemma apply_transformer_rule:
  assumes "\<forall>m. mode = Some m \<longrightarrow> m \<notin> set object_prototype_names"
  shows "(if mode_guard tr p mode
          then Inl (missing_mode tid (case mode of Some m \<Rightarrow> m | None \<Rightarrow> []))
          else apply_transformer f g (select_value p mode)) =
         map_sum id f (mode_lookup_rule tr tid p mode)"
proof (cases "mode_guard tr p mode")
  case True
  then show ?thesis using mode_rule_guard(1) [OF assms, of tr tid p] by simp
next
  case False
  with mode_rule_guard(2) [OF assms, of tr p] obtain v where "select_value p mode = Value v"
    by blast
  with False show ?thesis
    using mode_rule_guard(1) [OF assms, of tr tid p] by (simp add: apply_transformer_def)
qed

text \<open>
  C2, as the code has it, for a mode name that is not the name of a property objects
  inherit. For a token of each of the nine handled types \<open>defaultTransformer\<close> formats
  the value the mode lookup rule selects: \<open>$value\<close> when no mode is requested,
  \<open>$extensions.mode[name]\<close> when the requested mode is there (and truthy); for a
  requested mode that is missing it throws the error that names the token and the mode.
  There is no fallback to \<open>$value\<close>.
\<close>

theorem defaultTransformer_mode_lookup:
  assumes "\<forall>m. mode = Some m \<longrightarrow> m \<notin> set object_prototype_names"
  shows "defaultTransformer d \<lparr>token_id = tid, tdata = ColorToken p1\<rparr> mode =
     map_sum id transformColor (mode_lookup_rule truthy tid p1 mode)
   \<and> defaultTransformer d \<lparr>token_id = tid, tdata = DimensionToken p2\<rparr> mode =
     map_sum id transformDimension (mode_lookup_rule truthy tid p2 mode)
   \<and> defaultTransformer d \<lparr>token_id = tid, tdata = DurationToken p3\<rparr> mode =
     map_sum id transformDuration (mode_lookup_rule truthy tid p3 mode)
   \<and> defaultTransformer d \<lparr>token_id = tid, tdata = FontToken p4\<rparr> mode =
     map_sum id (transformFont d) (mode_lookup_rule (\<lambda>_. True) tid p4 mode)
   \<and> defaultTransformer d \<lparr>token_id = tid, tdata = CubicBezierToken p5\<rparr> mode =
     map_sum id (transformCubicBezier d) (mode_lookup_rule (\<lambda>_. True) tid p5 mode)
   \<and> defaultTransformer d \<lparr>token_id = tid, tdata = LinkToken p6\<rparr> mode =
     map_sum id transformLink (mode_lookup_rule truthy tid p6 mode)
   \<and> defaultTransformer d \<lparr>token_id = tid, tdata = ShadowToken p7\<rparr> mode =
     map_sum id transformShadow (mode_lookup_rule (\<lambda>_. True) tid p7 mode)
   \<and> defaultTransformer d \<lparr>token_id = tid, tdata = GradientToken p8\<rparr> mode =
     map_sum id (transformGradient d) (mode_lookup_rule (\<lambda>_. True) tid p8 mode)
   \<and> defaultTransformer d \<lparr>token_id = tid, tdata = TransitionToken p9\<rparr> mode =
     map_sum id (transformTransition d) (mode_lookup_rule (\<lambda>_. True) tid p9 mode)"
  by (simp add: defaultTransformer_def apply_transformer_rule [OF assms] split del: if_split
      cong: if_cong)

theorem defaultTransformer_mode_lookup_witness:
  "''dark'' \<notin> set object_prototype_names \<and> ''dim'' \<notin> set object_prototype_names
   \<and> defaultTransformer sample_deps sample_color (Some ''dark'') = Inr ''#cc0000''
   \<and> defaultTransformer sample_deps sample_color None = Inr ''#ff0000''
   \<and> defaultTransformer sample_deps sample_color (Some ''dim'') =
       Inl (Error (''Token color.red missing '' @ dq @ ''$extensions.mode.dim'' @ dq))"
proof -
  have n: "\<forall>m. Some ''dark'' = Some m \<longrightarrow> m \<notin> set object_prototype_names"
    "\<forall>m. Some ''dim'' = Some m \<longrightarrow> m \<notin> set object_prototype_names"
    "\<forall>m. (None :: string option) = Some m \<longrightarrow> m \<notin> set object_prototype_names"
    by (simp_all add: object_prototype_names_def)
  show ?thesis
    using defaultTransformer_mode_lookup [OF n(1), of sample_deps "''color.red''"
      "\<lparr>dvalue = ''#ff0000'', ext_mode = Some [(''light'', ''#ff3333''), (''dark'', ''#cc0000'')]\<rparr>"]
    defaultTransformer_mode_lookup [OF n(3), of sample_deps "''color.red''"
      "\<lparr>dvalue = ''#ff0000'', ext_mode = Some [(''light'', ''#ff3333''), (''dark'', ''#cc0000'')]\<rparr>"]
    defaultTransformer_mode_lookup [OF n(2), of sample_deps "''color.red''"
      "\<lparr>dvalue = ''#ff0000'', ext_mode = Some [(''light'', ''#ff3333''), (''dark'', ''#cc0000'')]\<rparr>"]
    by (simp add: sample_color_def mode_lookup_rule_def entries_of_def truthy_def transformColor_def
        object_prototype_names_def)
qed

text \<open>
  The fallback of C2 fails: for a colour token without modes, asking for the mode
  \<open>dark\<close> does not give the formatted \<open>$value\<close> but the error.
\<close>

theorem mode_fallback_counterexample:
  "defaultTransformer sample_deps sample_plain (Some ''dark'') \<noteq> defaultTransformer sample_deps sample_plain None
   \<and> defaultTransformer sample_deps sample_plain None = Inr ''#0000ff''
   \<and> defaultTransformer sample_deps sample_plain (Some ''dark'') =
       Inl (Error (''Token color.blue missing '' @ dq @ ''$extensions.mode.dark'' @ dq))"
  by (simp add: defaultTransformer_def sample_plain_def mode_guard_def truthy_def
      select_value_def apply_transformer_def transformColor_def missing_mode_def)

subsection \<open>The loop over the tokens\<close>


lemma modes_loop_collect:
  "modes_loop d options cfg t ks out =
     (case collect (map (\<lambda>k. emitted_value d options cfg t (Some k)) ks) of
        Inl e \<Rightarrow> Inl e
      | Inr vs \<Rightarrow> Inr (out @ map2 (mode_line d) ks vs))"
proof (induction ks arbitrary: out)
  case Nil
  then show ?case by simp
next
  case (Cons k ks)
  then show ?case by (simp split: sum.splits)
qed

lemma token_step_regular:
  "\<not> is_typography t \<Longrightarrow>
   token_step d options cfg t (out, typo) =
     (case collect (emitted_value d options cfg t None #
                    map (\<lambda>k. emitted_value d options cfg t (Some k)) (mode_keys t)) of
        Inl e \<Rightarrow> Inl e
      | Inr vs \<Rightarrow>
          Inr (out @ token_open d (token_id t) # default_line d (hd vs) #
                 map2 (mode_line d) (mode_keys t) (tl vs) @ [close_line d 1], typo))"
  by (cases "tdata t")
     (simp_all add: is_typography_def token_step_def modes_loop_collect split: sum.splits)

lemma token_step_typography:
  "tdata t = TypographyToken p \<Longrightarrow>
   token_step d options cfg t (out, typo) =
     Inr (out @ [token_open d (token_id t), typography_error_line d (token_id t), close_line d 1],
          typo @ [(token_id t, p)])"
  by (simp add: token_step_def)

lemma is_typographyE: "is_typography t \<Longrightarrow> \<exists>p. tdata t = TypographyToken p"
  by (auto simp: is_typography_def split: token_data.splits)









text \<open>
  C1, as the code has it. For a token that is not a typography token the step of the loop
  throws the first exception of the calls for the default value and for the mode names,
  in this order, or else emits their values. Each value is the result of the override
  when there is one and its result is a non-empty string, and the result of
  \<open>defaultTransformer\<close> for the same token and mode otherwise; for a link token with
  \<open>embedFiles\<close> set it is then passed through \<open>encode\<close>.
\<close>

theorem emitted_values:
  "\<not> is_typography t \<Longrightarrow>
   token_step d options cfg t (out, typo) =
     (case collect (emitted_value d options cfg t None #
                    map (\<lambda>k. emitted_value d options cfg t (Some k)) (mode_keys t)) of
        Inl e \<Rightarrow> Inl e
      | Inr vs \<Rightarrow>
          Inr (out @ token_open d (token_id t) # default_line d (hd vs) #
                 map2 (mode_line d) (mode_keys t) (tl vs) @ [close_line d 1], typo))
   \<and> emitted_value d options cfg t mode =
     (case (case override options t mode of
              None \<Rightarrow> defaultTransformer d t mode
            | Some s \<Rightarrow> if s \<noteq> [] then Inr s else defaultTransformer d t mode) of
        Inl e \<Rightarrow> Inl e
      | Inr v \<Rightarrow>
          if is_link t \<and> opt_embedFiles options
          then (case cfg of
                  None \<Rightarrow> Inl (TypeError ''Cannot read properties of undefined (reading 'outDir')'')
                | Some c \<Rightarrow> Inr (encode d v (outDir c)))
          else Inr v)"
  by (simp add: token_step_regular emitted_value_def transformed_def embed_def truthy_def
      split: sum.splits option.splits)

theorem emitted_values_witness:
  "\<not> is_typography sample_color
   \<and> token_step sample_deps sample_options None sample_color ([], []) =
       Inr ([token_open sample_deps ''color.red'', default_line sample_deps ''X'',
             mode_line sample_deps ''light'' ''#ff3333'', mode_line sample_deps ''dark'' ''#cc0000'',
             close_line sample_deps 1], [])
   \<and> override sample_options sample_color None = Some ''X''
   \<and> override sample_options sample_color (Some ''dark'') = Some []
   \<and> defaultTransformer sample_deps sample_color (Some ''dark'') = Inr ''#cc0000''"
proof -
  have n: "\<not> is_typography sample_color"
    by (simp add: is_typography_def sample_color_def)
  have d: "defaultTransformer sample_deps sample_color (Some ''dark'') = Inr ''#cc0000''"
    "defaultTransformer sample_deps sample_color (Some ''light'') = Inr ''#ff3333''"
    by (simp_all add: defaultTransformer_def sample_color_def mode_guard_def truthy_def
        select_value_def get_property_def apply_transformer_def transformColor_def)
  have o: "override sample_options sample_color None = Some ''X''"
    "override sample_options sample_color (Some ''dark'') = Some []"
    "override sample_options sample_color (Some ''light'') = Some []"
    by (simp_all add: override_def sample_options_def)
  have l: "\<not> is_link sample_color" "mode_keys sample_color = [''light'', ''dark'']"
    "token_id sample_color = ''color.red''"
    by (simp_all add: is_link_def sample_color_def mode_keys_def keys_of_def)
  have e: "emitted_value sample_deps sample_options None sample_color None = Inr ''X''"
    "emitted_value sample_deps sample_options None sample_color (Some ''dark'') = Inr ''#cc0000''"
    "emitted_value sample_deps sample_options None sample_color (Some ''light'') = Inr ''#ff3333''"
    using emitted_values [OF n, of sample_deps sample_options None "[]" "[]"] d o l
    by simp_all
  show ?thesis
    using emitted_values [OF n, of sample_deps sample_options None "[]" "[]" None] n d o l e
    by simp
qed

text \<open>
  C1 fails for a typography token: the override answers \<open>X\<close> for it, and the entry
  emitted for the token has no line of the value \<open>X\<close>.
\<close>

theorem override_typography_counterexample:
  "transformed sample_deps sample_options sample_typography None = Inr ''X''
   \<and> token_step sample_deps sample_options None sample_typography ([], []) =
       Inr ([token_open sample_deps ''type.body'', typography_error_line sample_deps ''type.body'',
             close_line sample_deps 1],
            [(''type.body'',
              \<lparr>dvalue = [(''lineHeight'', PNumber 1), (''fontFamily'', PArray [''Inter'', ''sans-serif'']),
                         (''fontSize'', PString ''16px'')],
               ext_mode = Some [(''mobile'', [(''fontSize'', PString ''14px''),
                                              (''fontFamily'', PArray [''Inter''])])]\<rparr>)])
   \<and> default_line sample_deps ''X'' \<notin>
       set [token_open sample_deps ''type.body'', typography_error_line sample_deps ''type.body'',
            close_line sample_deps 1]"
  by (simp add: transformed_def override_def sample_options_def truthy_def token_step_def
      sample_typography_def default_line_def token_open_def typography_error_line_def
      close_line_def sample_deps_def dq_def eval_nat_numeral)

subsection \<open>The typography mixins\<close>



















subsection \<open>The options\<close>





subsection \<open>The hooks\<close>

lemma embed_outDir:
  "outDir c1 = outDir c2 \<Longrightarrow> embed d options (Some c1) t v = embed d options (Some c2) t v"
  by (simp add: embed_def)

lemma emitted_value_outDir:
  "outDir c1 = outDir c2 \<Longrightarrow>
   emitted_value d options (Some c1) t mode = emitted_value d options (Some c2) t mode"
  by (auto simp: emitted_value_def embed_def split: sum.splits)


lemma token_step_cong:
  assumes "\<And>mode. emitted_value d options cfg1 t mode = emitted_value d options cfg2 t mode"
  shows "token_step d options cfg1 t st = token_step d options cfg2 t st"
proof (cases st)
  case (Pair out typo)
  show ?thesis
  proof (cases "is_typography t")
    case True
    then obtain p where "tdata t = TypographyToken p" using is_typographyE by blast
    with Pair show ?thesis by (simp add: token_step_typography)
  next
    case False
    with Pair assms show ?thesis by (simp add: token_step_regular)
  qed
qed

lemma tokens_loop_cong:
  assumes "\<And>t mode. emitted_value d options cfg1 t mode = emitted_value d options cfg2 t mode"
  shows "tokens_loop d options cfg1 ts st = tokens_loop d options cfg2 ts st"
proof (induction ts arbitrary: st)
  case Nil
  then show ?case by simp
next
  case (Cons t ts)
  have "token_step d options cfg1 t st = token_step d options cfg2 t st"
    using assms by (rule token_step_cong)
  with Cons show ?case by (simp split: sum.splits)
qed

lemma build_cong:
  assumes "\<And>t mode. emitted_value d options cfg1 t mode = emitted_value d options cfg2 t mode"
  shows "build d options cfg1 inp = build d options cfg2 inp"
  using tokens_loop_cong [of d options cfg1 cfg2, OF assms]
  by (simp add: build_def build_lines_def)

text \<open>
  C7. The \<open>config\<close> hook leaves the heap of configuration objects as it is and only
  stores the reference in the closure state. The \<open>build\<close> hook that follows returns
  state and heap unchanged, and of the heap it reads nothing but \<open>outDir\<close> of the
  captured configuration: two heaps that agree there give the same result.
\<close>

theorem config_frame:
  "snd (config_hook c (st, h)) = h
   \<and> config (fst (config_hook c (st, h))) = Some c
   \<and> snd (build_hook d options inp (config_hook c (st, h))) = config_hook c (st, h)
   \<and> (outDir (h c) = outDir (h' c) \<longrightarrow>
        fst (build_hook d options inp (config_hook c (st, h))) =
        fst (build_hook d options inp (config_hook c (st', h'))))"
proof -
  have "build d options (Some (h c)) inp = build d options (Some (h' c)) inp"
    if "outDir (h c) = outDir (h' c)"
    using that by (intro build_cong emitted_value_outDir)
  then show ?thesis by (simp add: config_hook_def build_hook_def)
qed

theorem config_frame_witness:
  "snd (config_hook 0 (\<lparr>config = None\<rparr>, sample_heap)) = sample_heap
   \<and> config (fst (config_hook 0 (\<lparr>config = None\<rparr>, sample_heap))) = Some 0
   \<and> snd (build_hook sample_deps sample_embed_options sample_link_input
             (config_hook 0 (\<lparr>config = None\<rparr>, sample_heap))) =
       (\<lparr>config = Some 0\<rparr>, sample_heap)
   \<and> outDir (sample_heap 0) = outDir ((sample_heap (0 := (sample_heap 0)\<lparr>plugins := []\<rparr>)) 0)
   \<and> fst (build_hook sample_deps sample_embed_options sample_link_input
             (config_hook 0 (\<lparr>config = None\<rparr>, sample_heap))) =
       fst (build_hook sample_deps sample_embed_options sample_link_input
             (config_hook 0 (\<lparr>config = Some 1\<rparr>, sample_heap (0 := (sample_heap 0)\<lparr>plugins := []\<rparr>))))"
  using config_frame [of 0 "\<lparr>config = None\<rparr>" sample_heap sample_deps sample_embed_options
      sample_link_input "sample_heap (0 := (sample_heap 0)\<lparr>plugins := []\<rparr>)" "\<lparr>config = Some 1\<rparr>"]
  by (simp add: config_hook_def)



subsection \<open>The result of build\<close>

lemma collect_Inr_iff: "(\<exists>vs. collect xs = Inr vs) \<longleftrightarrow> (\<forall>x\<in>set xs. \<exists>v. x = Inr v)"
  by (induction xs) (auto split: sum.splits)

lemma token_step_Inr_iff:
  "(\<exists>st'. token_step d options cfg t st = Inr st') \<longleftrightarrow>
   (is_typography t \<or>
    (\<forall>mode\<in>set (None # map Some (mode_keys t)). \<exists>v. emitted_value d options cfg t mode = Inr v))"
proof (cases st)
  case (Pair out typo)
  show ?thesis
  proof (cases "is_typography t")
    case True
    then obtain p where "tdata t = TypographyToken p" using is_typographyE by blast
    with Pair True show ?thesis by (simp add: token_step_typography)
  next
    case False
    have "(\<exists>st'. token_step d options cfg t (out, typo) = Inr st') \<longleftrightarrow>
          (\<exists>vs. collect (emitted_value d options cfg t None #
                    map (\<lambda>k. emitted_value d options cfg t (Some k)) (mode_keys t)) = Inr vs)"
      using False by (auto simp: token_step_regular split: sum.splits)
    also have "\<dots> \<longleftrightarrow>
          (\<forall>mode\<in>set (None # map Some (mode_keys t)). \<exists>v. emitted_value d options cfg t mode = Inr v)"
      unfolding collect_Inr_iff by auto
    finally show ?thesis using False Pair by simp
  qed
qed

lemma tokens_loop_Inr_iff:
  "(\<exists>st'. tokens_loop d options cfg ts st = Inr st') \<longleftrightarrow>
   (\<forall>t\<in>set ts. is_typography t \<or>
      (\<forall>mode\<in>set (None # map Some (mode_keys t)). \<exists>v. emitted_value d options cfg t mode = Inr v))"
proof (induction ts arbitrary: st)
  case Nil
  then show ?case by simp
next
  case (Cons t ts)
  show ?case
  proof (cases "token_step d options cfg t st")
    case (Inl e)
    then have "\<not> (\<exists>st'. token_step d options cfg t st = Inr st')" by simp
    with Inl show ?thesis unfolding token_step_Inr_iff by auto
  next
    case (Inr st1)
    then have "\<exists>st'. token_step d options cfg t st = Inr st'" by simp
    then have "is_typography t \<or>
      (\<forall>mode\<in>set (None # map Some (mode_keys t)). \<exists>v. emitted_value d options cfg t mode = Inr v)"
      unfolding token_step_Inr_iff .
    with Inr Cons.IH [of st1] show ?thesis by simp
  qed
qed

text \<open>
  C10, as the code has it. \<open>build\<close> either throws or returns exactly one result, whose
  filename is the one computed from the options and whose contents are the lines joined
  with newlines. It returns exactly when no value of a token that is not a typography
  token throws, for the default and for each of its mode names.
\<close>

theorem build_result:
  "((\<exists>e. build d options cfg inp = Inl e) \<or>
    (\<exists>lines. build_lines d options cfg inp = Inr lines \<and>
       build d options cfg inp =
         Inr [\<lparr>result_filename = output_filename options, contents = join newline lines\<rparr>]))
   \<and> ((\<exists>rs. build d options cfg inp = Inr rs) \<longleftrightarrow>
        (\<forall>t\<in>set (tokens inp). is_typography t \<or>
           (\<forall>mode\<in>set (None # map Some (mode_keys t)).
              \<exists>v. emitted_value d options cfg t mode = Inr v)))"
proof -
  have 1: "(\<exists>e. build d options cfg inp = Inl e) \<or>
    (\<exists>lines. build_lines d options cfg inp = Inr lines \<and>
       build d options cfg inp =
         Inr [\<lparr>result_filename = output_filename options, contents = join newline lines\<rparr>])"
    by (cases "build_lines d options cfg inp") (simp_all add: build_def)
  have "(\<exists>rs. build d options cfg inp = Inr rs) \<longleftrightarrow>
        (\<exists>st'. tokens_loop d options cfg (tokens inp)
             (header (metadata inp) @ use_lines options
                @ ['''', indent d (''$'' @ VAR_TOKENS @ '': ('') 0], []) = Inr st')"
    by (auto simp: build_def build_lines_def split: sum.splits)
  then have 2: "(\<exists>rs. build d options cfg inp = Inr rs) \<longleftrightarrow>
        (\<forall>t\<in>set (tokens inp). is_typography t \<or>
           (\<forall>mode\<in>set (None # map Some (mode_keys t)).
              \<exists>v. emitted_value d options cfg t mode = Inr v))"
    unfolding tokens_loop_Inr_iff .
  from 1 2 show ?thesis by blast
qed

theorem build_result_witness:
  "\<exists>lines. build_lines sample_deps sample_options None sample_input = Inr lines \<and>
     build sample_deps sample_options None sample_input =
       Inr [\<lparr>result_filename = ''tokens.scss'', contents = join newline lines\<rparr>]"
proof -
  have e: "emitted_value sample_deps sample_options None sample_color None = Inr ''X''"
    "emitted_value sample_deps sample_options None sample_color (Some ''light'') = Inr ''#ff3333''"
    "emitted_value sample_deps sample_options None sample_color (Some ''dark'') = Inr ''#cc0000''"
    by (simp_all add: emitted_value_def transformed_def override_def sample_options_def truthy_def
        embed_def is_link_def sample_color_def defaultTransformer_def mode_guard_def
        select_value_def get_property_def apply_transformer_def transformColor_def)
  have k: "mode_keys sample_color = [''light'', ''dark'']" "is_typography sample_typography"
    "tokens sample_input = [sample_color, sample_typography]"
    by (simp_all add: mode_keys_def keys_of_def sample_color_def is_typography_def
        sample_typography_def sample_input_def)
  have f: "output_filename sample_options = ''tokens.scss''"
    by (simp add: output_filename_def sample_options_def truthy_def ext_def opt_indentedSyntax_def)
  from build_result [of sample_deps sample_options None sample_input] e k
  have "\<exists>rs. build sample_deps sample_options None sample_input = Inr rs" by simp
  with build_result [of sample_deps sample_options None sample_input] f
  show ?thesis by auto
qed

text \<open>
  C10 fails for some inputs: for a token of a type without a transformer, and for a
  colour token with an empty mode value, \<open>build\<close> throws and returns no result.
\<close>

theorem build_throws_counterexample:
  "build sample_deps None None \<lparr>tokens = [sample_custom], metadata = \<lparr>name = None\<rparr>\<rparr> =
     Inl (Error ''No transformer defined for $type: number tokens'')
   \<and> build sample_deps None None \<lparr>tokens = [sample_empty_mode], metadata = \<lparr>name = None\<rparr>\<rparr> =
     Inl (Error (''Token color.ink missing '' @ dq @ ''$extensions.mode.dark'' @ dq))"
  by (simp add: build_def build_lines_def token_step_def emitted_value_def transformed_def
      override_def sample_custom_def sample_empty_mode_def defaultTransformer_def mode_guard_def
      no_transformer_def missing_mode_def truthy_def embed_def is_link_def mode_keys_def
      keys_of_def select_value_def get_property_def apply_transformer_def transformColor_def)

end

